theory Spec2Isabelle
  imports Main
begin

section \<open>Data model\<close>

text \<open>
  Timestamps (\<open>datetime\<close> values, \<open>func.now()\<close>, \<open>datetime.utcnow()\<close>) are seconds on
  one integer time line. Every operation receives the instant \<open>now\<close> at which it runs; the
  database clock and the application clock are the same clock in this model.
\<close>

type_synonym time = int

datatype UserRole = CUSTOMER | ADMIN | AGENT

datatype UserStatus = ACTIVE | INACTIVE | SUSPENDED | PENDING_VERIFICATION

text \<open>\<open>user.role.value\<close>: the string carried by the enum member.\<close>

fun role_value :: "UserRole \<Rightarrow> string" where
  "role_value CUSTOMER = ''customer''"
| "role_value ADMIN = ''admin''"
| "role_value AGENT = ''agent''"

text \<open>
  Table \<open>users\<close> (\<open>app/models/user_model.py\<close>). The primary key is a UUID; the model keeps
  its string form \<open>str(user.id)\<close>, which is what the service puts into the \<open>sub\<close> claim
  and hands back to \<open>get_user_by_id\<close>.
\<close>

record User =
  id_User :: string
  cedula :: string
  password_hash :: string
  first_name :: string
  last_name :: string
  phone :: string
  address :: string
  profile_photo_url :: "string option"
  document_front_url :: "string option"
  document_back_url :: "string option"
  role :: UserRole
  status :: UserStatus
  is_verified :: bool
  created_at_User :: time
  updated_at :: time
  last_login :: "time option"

text \<open>
  Table \<open>refresh_tokens\<close> (\<open>app/models/refresh_token_model.py\<close>). The surrogate key
  (\<open>default=uuid.uuid4\<close>) is modelled by the number of rows present at insertion, which is
  fresh because no operation removes a row.
\<close>

record RefreshToken =
  id_RefreshToken :: nat
  user_id :: string
  token :: string
  expires_at :: time
  is_revoked :: bool
  created_at_RefreshToken :: time
  created_by_ip :: "string option"

text \<open>
  The dictionary \<open>audit_data\<close> that \<open>AuditLogger.log_action\<close> builds. \<open>details\<close> is the
  dictionary that the source serialises with \<open>json.dumps\<close>, kept here as its list of items.
\<close>

record audit_data =
  user_id_audit :: "string option"
  action :: string
  resource :: "string option"
  details :: "(string \<times> string) list option"
  ip_address :: "string option"
  user_agent :: "string option"

text \<open>
  The state the engine works on: the two tables in insertion order, and the audit entries
  emitted so far.
\<close>

record db =
  users :: "User list"
  refresh_tokens :: "RefreshToken list"
  audit_emitted :: "audit_data list"

text \<open>
  \<open>app/utils/security.py\<close> is not among the sources at hand. Its four functions are
  parameters of the model. They read the clock (token expiry) and may draw randomness, so
  the instant and a seed are explicit arguments. A claim set is a dictionary, kept as its
  list of items; \<open>verify_token\<close> returns \<open>None\<close> for every rejection.
\<close>

record security =
  security_verify_password :: "string \<Rightarrow> string \<Rightarrow> bool"
  security_create_access_token :: "time \<Rightarrow> nat \<Rightarrow> (string \<times> string) list \<Rightarrow> int \<Rightarrow> string"
  security_create_refresh_token :: "time \<Rightarrow> nat \<Rightarrow> (string \<times> string) list \<Rightarrow> string"
  security_verify_token :: "time \<Rightarrow> string \<Rightarrow> string \<Rightarrow> (string \<times> string) list option"

text \<open>The two fields of \<open>app/config/settings.py\<close> that the engine reads.\<close>

record settings =
  ACCESS_TOKEN_EXPIRE_MINUTES :: int
  REFRESH_TOKEN_EXPIRE_DAYS :: int

text \<open>
  Exceptions that reach the \<open>except Exception\<close> handlers of the service. The column
  \<open>token\<close> is declared \<open>unique=True\<close>, so committing a second row with a stored token
  string raises \<open>IntegrityError\<close>. Column length limits and a lost database connection
  are not modelled.
\<close>

datatype exn = IntegrityError

text \<open>\<open>str(e)\<close>, shortened to the name of the exception.\<close>

fun str_exn :: "exn \<Rightarrow> string" where
  "str_exn IntegrityError = ''IntegrityError''"

record TokenResponse =
  access_token :: string
  refresh_token :: "string option"
  token_type :: string
  expires_in :: int

section \<open>Repositories\<close>

text \<open>
  \<open>query(...).filter(c).first()\<close> is \<^const>\<open>find\<close> on the table; assigning to an
  attribute of the object it returned and committing rewrites that row, the first one that
  satisfies \<open>c\<close>.
\<close>

fun update_first :: "('a \<Rightarrow> bool) \<Rightarrow> ('a \<Rightarrow> 'a) \<Rightarrow> 'a list \<Rightarrow> 'a list" where
  "update_first P f [] = []"
| "update_first P f (x # xs) = (if P x then f x # xs else x # update_first P f xs)"

definition get_user_by_cedula :: "string \<Rightarrow> db \<Rightarrow> User option" where
  "get_user_by_cedula c s = find (\<lambda>u. cedula u = c) (users s)"

text \<open>
  The argument is \<open>token_data.get("sub")\<close> in two callers, which is \<open>None\<close> when the claim
  is missing; a comparison with \<open>NULL\<close> selects no row. Subjects are strings that the
  service itself wrote into its tokens from \<open>str(user.id)\<close>; what the database does with
  a string that is not a UUID is not modelled.
\<close>

definition get_user_by_id :: "string option \<Rightarrow> db \<Rightarrow> User option" where
  "get_user_by_id uid s =
     (case uid of None \<Rightarrow> None | Some i \<Rightarrow> find (\<lambda>u. id_User u = i) (users s))"

definition authenticate_user :: "security \<Rightarrow> string \<Rightarrow> string \<Rightarrow> db \<Rightarrow> User option" where
  "authenticate_user sec c password s =
     (case get_user_by_cedula c s of
        None \<Rightarrow> None
      | Some user \<Rightarrow>
          if \<not> security_verify_password sec password (password_hash user) then None
          else Some user)"

text \<open>
  \<open>update_last_login\<close> assigns \<open>user.last_login = user.updated_at\<close> and commits. The
  column \<open>updated_at\<close> is declared \<open>onupdate=func.now()\<close>: when the commit writes the row
  (the assignment changed it), the database sets \<open>updated_at\<close> to the current time.
\<close>

definition touch_last_login :: "time \<Rightarrow> User \<Rightarrow> User" where
  "touch_last_login now user =
     (if last_login user = Some (updated_at user) then user
      else user\<lparr>last_login := Some (updated_at user), updated_at := now\<rparr>)"

definition update_last_login :: "time \<Rightarrow> string \<Rightarrow> db \<Rightarrow> db" where
  "update_last_login now uid s =
     (case get_user_by_id (Some uid) s of
        None \<Rightarrow> s
      | Some user \<Rightarrow>
          s\<lparr>users := update_first (\<lambda>u. id_User u = uid) (touch_last_login now) (users s)\<rparr>)"

definition create_refresh_token ::
  "time \<Rightarrow> string \<Rightarrow> string \<Rightarrow> time \<Rightarrow> string option \<Rightarrow> db \<Rightarrow> exn + db" where
  "create_refresh_token now uid tok exp ip s =
     (if tok \<in> set (map token (refresh_tokens s)) then Inl IntegrityError
      else Inr (s\<lparr>refresh_tokens := refresh_tokens s @
             [\<lparr>id_RefreshToken = length (refresh_tokens s), user_id = uid, token = tok,
               expires_at = exp, is_revoked = False, created_at_RefreshToken = now,
               created_by_ip = ip\<rparr>]\<rparr>))"

definition get_refresh_token :: "time \<Rightarrow> string \<Rightarrow> db \<Rightarrow> RefreshToken option" where
  "get_refresh_token now tok s =
     find (\<lambda>r. token r = tok \<and> is_revoked r = False \<and> expires_at r > now) (refresh_tokens s)"

definition revoke_refresh_token :: "string \<Rightarrow> db \<Rightarrow> bool \<times> db" where
  "revoke_refresh_token tok s =
     (case find (\<lambda>r. token r = tok) (refresh_tokens s) of
        Some r \<Rightarrow>
          (True, s\<lparr>refresh_tokens :=
                    update_first (\<lambda>r. token r = tok) (\<lambda>r. r\<lparr>is_revoked := True\<rparr>)
                      (refresh_tokens s)\<rparr>)
      | None \<Rightarrow> (False, s))"

section \<open>Audit sink\<close>

text \<open>
  \<open>AuditLogger.log_action\<close> builds \<open>audit_data\<close> and hands it to the audit repository
  inside a \<open>try\<close> block that catches every exception, so it never changes the outcome of
  the operation that calls it. The model records the entry that is handed over, in order;
  it does not say whether the repository stored a row (the source constructs the repository
  without a session). An empty \<open>details\<close> dictionary is sent as \<open>None\<close>.
\<close>

definition log_action ::
  "string option \<Rightarrow> string \<Rightarrow> string option \<Rightarrow> (string \<times> string) list option \<Rightarrow>
   string option \<Rightarrow> string option \<Rightarrow> db \<Rightarrow> db" where
  "log_action uid act res det ip ua s =
     s\<lparr>audit_emitted := audit_emitted s @
        [\<lparr>user_id_audit = uid, action = act, resource = res,
          details = (case det of None \<Rightarrow> None | Some d \<Rightarrow> if d = [] then None else Some d),
          ip_address = ip, user_agent = ua\<rparr>]\<rparr>"

section \<open>AuthService\<close>

text \<open>
  Every operation returns the tuple of the source, paired with the state it leaves behind.
  The messages are the literals of the source without their diacritics. \<open>not token_data\<close>
  holds for \<open>None\<close> and for the empty dictionary.
\<close>

definition falsy :: "(string \<times> string) list option \<Rightarrow> bool" where
  "falsy token_data = (token_data = None \<or> token_data = Some [])"

definition dict_get :: "(string \<times> string) list option \<Rightarrow> string \<Rightarrow> string option" where
  "dict_get token_data k = (case token_data of None \<Rightarrow> None | Some d \<Rightarrow> map_of d k)"

definition login_user ::
  "security \<Rightarrow> settings \<Rightarrow> time \<Rightarrow> nat \<Rightarrow> string \<Rightarrow> string \<Rightarrow> string option \<Rightarrow> string option \<Rightarrow>
   db \<Rightarrow> (bool \<times> string \<times> TokenResponse option) \<times> db" where
  "login_user sec cfg now seed c password ip ua s =
     (case authenticate_user sec c password s of
        None \<Rightarrow>
          ((False, ''Cedula o contrasena incorrecta'', None),
           log_action None ''login_failed'' (Some ''user'') (Some [(''cedula'', c)]) ip ua s)
      | Some user \<Rightarrow>
          let acc = security_create_access_token sec now seed
                      [(''sub'', id_User user), (''cedula'', cedula user),
                       (''role'', role_value (role user))]
                      (ACCESS_TOKEN_EXPIRE_MINUTES cfg * 60);
              rt = security_create_refresh_token sec now seed [(''sub'', id_User user)]
          in case create_refresh_token now (id_User user) rt
                    (now + REFRESH_TOKEN_EXPIRE_DAYS cfg * 86400) ip s of
               Inl e \<Rightarrow> ((False, ''Error en login: '' @ str_exn e, None), s)
             | Inr s1 \<Rightarrow>
                 let s2 = update_last_login now (id_User user) s1;
                     s3 = log_action (Some (id_User user)) ''login'' (Some ''user'')
                            (Some [(''cedula'', cedula user)]) ip ua s2
                 in ((True, ''Login exitoso'',
                      Some \<lparr>access_token = acc, refresh_token = Some rt,
                            token_type = ''bearer'',
                            expires_in = ACCESS_TOKEN_EXPIRE_MINUTES cfg * 60\<rparr>), s3))"

definition refresh_access_token ::
  "security \<Rightarrow> settings \<Rightarrow> time \<Rightarrow> nat \<Rightarrow> string \<Rightarrow> string option \<Rightarrow>
   db \<Rightarrow> (bool \<times> string \<times> TokenResponse option) \<times> db" where
  "refresh_access_token sec cfg now seed rt ip s =
     (let token_data = security_verify_token sec now rt ''refresh'' in
      if falsy token_data then ((False, ''Refresh token invalido o expirado'', None), s)
      else
        case get_refresh_token now rt s of
          None \<Rightarrow> ((False, ''Refresh token no encontrado'', None), s)
        | Some stored_token \<Rightarrow>
            (case get_user_by_id (dict_get token_data ''sub'') s of
               None \<Rightarrow> ((False, ''Usuario no encontrado'', None), s)
             | Some user \<Rightarrow>
                 let acc = security_create_access_token sec now seed
                             [(''sub'', id_User user), (''cedula'', cedula user),
                              (''role'', role_value (role user))]
                             (ACCESS_TOKEN_EXPIRE_MINUTES cfg * 60);
                     new_rt = security_create_refresh_token sec now seed
                                [(''sub'', id_User user)];
                     s1 = snd (revoke_refresh_token rt s)
                 in case create_refresh_token now (id_User user) new_rt
                           (now + REFRESH_TOKEN_EXPIRE_DAYS cfg * 86400) ip s1 of
                      Inl e \<Rightarrow> ((False, ''Error renovando token: '' @ str_exn e, None), s1)
                    | Inr s2 \<Rightarrow>
                        ((True, ''Token renovado exitosamente'',
                          Some \<lparr>access_token = acc, refresh_token = Some new_rt,
                                token_type = ''bearer'',
                                expires_in = ACCESS_TOKEN_EXPIRE_MINUTES cfg * 60\<rparr>), s2)))"

text \<open>\<open>if refresh_token:\<close> skips the revocation for \<open>None\<close> and for the empty string.\<close>

definition logout_user ::
  "security \<Rightarrow> time \<Rightarrow> string \<Rightarrow> string option \<Rightarrow> string option \<Rightarrow> db \<Rightarrow> (bool \<times> string) \<times> db" where
  "logout_user sec now acc rt ip s =
     (let token_data = security_verify_token sec now acc ''access'' in
      if falsy token_data then ((False, ''Token invalido''), s)
      else
        let uid = dict_get token_data ''sub'';
            s1 = (case rt of
                    None \<Rightarrow> s
                  | Some r \<Rightarrow> if r = [] then s else snd (revoke_refresh_token r s))
        in ((True, ''Logout exitoso''),
            log_action uid ''logout'' (Some ''user'') None ip None s1))"

definition verify_token ::
  "security \<Rightarrow> time \<Rightarrow> string \<Rightarrow> db \<Rightarrow>
   (bool \<times> string \<times> (string \<times> string) list option) \<times> db" where
  "verify_token sec now tok s =
     (let token_data = security_verify_token sec now tok ''access'' in
      if falsy token_data then ((False, ''Token invalido o expirado'', None), s)
      else
        case get_user_by_id (dict_get token_data ''sub'') s of
          None \<Rightarrow> ((False, ''Usuario no encontrado'', None), s)
        | Some user \<Rightarrow> ((True, ''Token valido'', token_data), s))"

section \<open>The engine as a transition system\<close>

text \<open>
  One request to the engine, with the arguments of the service method it calls. A run is a
  list of requests, each with the instant and the seed at which it is served.
\<close>

datatype request =
    Login string string "string option" "string option"
  | Refresh string "string option"
  | Logout string "string option" "string option"
  | Verify string

fun engine_step :: "security \<Rightarrow> settings \<Rightarrow> time \<times> nat \<times> request \<Rightarrow> db \<Rightarrow> db" where
  "engine_step sec cfg (now, seed, Login c password ip ua) s =
     snd (login_user sec cfg now seed c password ip ua s)"
| "engine_step sec cfg (now, seed, Refresh rt ip) s =
     snd (refresh_access_token sec cfg now seed rt ip s)"
| "engine_step sec cfg (now, seed, Logout acc rt ip) s = snd (logout_user sec now acc rt ip s)"
| "engine_step sec cfg (now, seed, Verify tok) s = snd (verify_token sec now tok s)"

fun engine_run :: "security \<Rightarrow> settings \<Rightarrow> (time \<times> nat \<times> request) list \<Rightarrow> db \<Rightarrow> db" where
  "engine_run sec cfg [] s = s"
| "engine_run sec cfg (e # es) s = engine_run sec cfg es (engine_step sec cfg e s)"

text \<open>
  The unique index on \<open>refresh_tokens.token\<close>: no two rows carry the same token string.
\<close>

definition unique_tokens :: "db \<Rightarrow> bool" where
  "unique_tokens s = distinct (map token (refresh_tokens s))"

text \<open>
  A token string is spent when the store has a row for it and every row that carries it is
  revoked.
\<close>

definition spent :: "string \<Rightarrow> db \<Rightarrow> bool" where
  "spent t s =
     (t \<in> set (map token (refresh_tokens s)) \<and>
      list_all (\<lambda>r. token r = t \<longrightarrow> is_revoked r) (refresh_tokens s))"

text \<open>
  What may happen to one row, and to the table: a row stays as it is or has its flag set;
  the table keeps every row at its place and may grow at the end.
\<close>

definition row_step :: "RefreshToken \<Rightarrow> RefreshToken \<Rightarrow> bool" where
  "row_step r r' = (r' = r \<or> r' = r\<lparr>is_revoked := True\<rparr>)"

definition rows_kept :: "RefreshToken list \<Rightarrow> RefreshToken list \<Rightarrow> bool" where
  "rows_kept xs ys = (length xs \<le> length ys \<and> list_all2 row_step xs (take (length xs) ys))"

text \<open>
  The writes that the service methods issue, closed under sequencing: a revocation, an
  insertion that the unique index admits, and writes that leave the table of refresh
  tokens alone (the user table, the audit sink).
\<close>

inductive store_step :: "db \<Rightarrow> db \<Rightarrow> bool" where
  untouched: "refresh_tokens s' = refresh_tokens s \<Longrightarrow> store_step s s'"
| revoked: "store_step s (snd (revoke_refresh_token t s))"
| created: "create_refresh_token now uid tok exp ip s = Inr s' \<Longrightarrow> store_step s s'"
| sequenced: "store_step s s' \<Longrightarrow> store_step s' s'' \<Longrightarrow> store_step s s''"

section \<open>A concrete instance\<close>

text \<open>
  A small stand-in for the security module, used to run the engine on concrete inputs. An
  access token is \<open>acc-\<close> followed by the subject; a refresh token is \<open>ref-\<close>, the
  two-character subject, a dash and \<open>seed\<close> marks. Tokens of both kinds are rejected from
  instant 100 on, and a token of one kind is rejected where the other is expected.
\<close>

definition demo_sub :: "(string \<times> string) list \<Rightarrow> string" where
  "demo_sub d = (case map_of d ''sub'' of None \<Rightarrow> [] | Some x \<Rightarrow> x)"

definition demo_security :: security where
  "demo_security =
     \<lparr>security_verify_password = (\<lambda>password h. h = ''#'' @ password),
      security_create_access_token = (\<lambda>now seed d ttl. ''acc-'' @ demo_sub d),
      security_create_refresh_token =
        (\<lambda>now seed d. ''ref-'' @ demo_sub d @ ''-'' @ replicate seed (CHR ''i'')),
      security_verify_token =
        (\<lambda>now tok kind.
           if now < 100 \<and> kind = ''access'' \<and> take 4 tok = ''acc-''
             then Some [(''sub'', drop 4 tok)]
           else if now < 100 \<and> kind = ''refresh'' \<and> take 4 tok = ''ref-''
             then Some [(''sub'', take 2 (drop 4 tok))]
           else None)\<rparr>"

definition demo_settings :: settings where
  "demo_settings = \<lparr>ACCESS_TOKEN_EXPIRE_MINUTES = 30, REFRESH_TOKEN_EXPIRE_DAYS = 7\<rparr>"

definition demo_user :: "string \<Rightarrow> string \<Rightarrow> string \<Rightarrow> User" where
  "demo_user i c h =
     \<lparr>id_User = i, cedula = c, password_hash = h, first_name = ''Ana'', last_name = ''Roa'',
      phone = ''3001234567'', address = ''Calle 1 # 2-3'', profile_photo_url = None,
      document_front_url = None, document_back_url = None, role = CUSTOMER,
      status = ACTIVE, is_verified = True, created_at_User = 5, updated_at = 5,
      last_login = None\<rparr>"

definition demo_row :: "nat \<Rightarrow> string \<Rightarrow> string \<Rightarrow> bool \<Rightarrow> RefreshToken" where
  "demo_row n uid tok revoked =
     \<lparr>id_RefreshToken = n, user_id = uid, token = tok, expires_at = 1000, is_revoked = revoked,
      created_at_RefreshToken = 0, created_by_ip = None\<rparr>"

text \<open>
  Two users; \<open>u1\<close> holds two refresh tokens (two devices), the second one revoked in
  \<open>demo_db_revoked\<close>.
\<close>

definition demo_db :: db where
  "demo_db =
     \<lparr>users = [demo_user ''u1'' ''12345678'' ''#secreto-1'',
               demo_user ''u2'' ''87654321'' ''#secreto-2''],
      refresh_tokens = [demo_row 0 ''u1'' ''ref-u1-'' False,
                        demo_row 1 ''u1'' ''ref-u1-i'' False],
      audit_emitted = []\<rparr>"

definition demo_db_revoked :: db where
  "demo_db_revoked =
     demo_db\<lparr>refresh_tokens := [demo_row 0 ''u1'' ''ref-u1-'' False,
                                 demo_row 1 ''u1'' ''ref-u1-i'' True]\<rparr>"

text \<open>A store in which a token was issued whose subject has no user record.\<close>

definition demo_db_orphan :: db where
  "demo_db_orphan = demo_db\<lparr>refresh_tokens := [demo_row 0 ''u9'' ''ref-u9-'' False]\<rparr>"

text \<open>A login of \<open>u1\<close> on a third device, then a logout that hands in the second token.\<close>

definition demo_requests :: "(time \<times> nat \<times> request) list" where
  "demo_requests =
     [(60, 3, Login ''12345678'' ''secreto-1'' None None),
      (70, 4, Logout ''acc-u1'' (Some ''ref-u1-i'') None)]"

section \<open>Facts about the repositories\<close>

lemma length_update_first: "length (update_first P f xs) = length xs"
  by (induction xs) auto

lemma map_token_revoke_first:
  "map token (update_first P (\<lambda>r. r\<lparr>is_revoked := True\<rparr>) xs) = map token xs"
  by (induction xs) auto

lemma revoke_first_unique:
  assumes "distinct (map token xs)"
      and "x \<in> set (update_first (\<lambda>r. token r = t) (\<lambda>r. r\<lparr>is_revoked := True\<rparr>) xs)"
      and "token x = t"
    shows "is_revoked x"
  using assms
proof (induction xs)
  case Nil
  then show ?case by simp
next
  case (Cons a xs)
  show ?case
  proof (cases "token a = t")
    case True
    with Cons.prems have "x = a\<lparr>is_revoked := True\<rparr> \<or> x \<in> set xs" by auto
    moreover from True Cons.prems have "t \<notin> token ` set xs" by auto
    ultimately show ?thesis using Cons.prems(3) by auto
  next
    case False
    with Cons show ?thesis by auto
  qed
qed

lemma find_SomeD: "find P xs = Some x \<Longrightarrow> P x \<and> x \<in> set xs"
  by (induction xs) (auto split: if_splits)

lemma update_first_none: "\<forall>x \<in> set xs. \<not> P x \<Longrightarrow> update_first P f xs = xs"
  by (induction xs) auto

lemma revoke_refresh_token_fst:
  "fst (revoke_refresh_token t s) = (t \<in> set (map token (refresh_tokens s)))"
  by (auto simp: revoke_refresh_token_def find_None_iff split: option.splits dest: find_SomeD)

lemma revoke_refresh_token_rows:
  "refresh_tokens (snd (revoke_refresh_token t s)) =
     update_first (\<lambda>r. token r = t) (\<lambda>r. r\<lparr>is_revoked := True\<rparr>) (refresh_tokens s)"
proof (cases "find (\<lambda>r. token r = t) (refresh_tokens s)")
  case None
  then have "\<forall>r \<in> set (refresh_tokens s). token r \<noteq> t" by (auto simp: find_None_iff)
  then have "update_first (\<lambda>r. token r = t) (\<lambda>r. r\<lparr>is_revoked := True\<rparr>) (refresh_tokens s) = refresh_tokens s"
    by (simp add: update_first_none)
  with None show ?thesis by (simp add: revoke_refresh_token_def)
next
  case (Some a)
  then show ?thesis by (simp add: revoke_refresh_token_def)
qed

lemma revoke_refresh_token_others:
  "users (snd (revoke_refresh_token t s)) = users s \<and>
   audit_emitted (snd (revoke_refresh_token t s)) = audit_emitted s"
  by (simp add: revoke_refresh_token_def split: option.splits)

lemma unique_tokens_revoke: "unique_tokens s \<Longrightarrow> unique_tokens (snd (revoke_refresh_token t s))"
  by (simp add: unique_tokens_def revoke_refresh_token_rows map_token_revoke_first)

lemma get_refresh_token_after_revoke:
  assumes "unique_tokens s"
  shows "get_refresh_token now t (snd (revoke_refresh_token t s)) = None"
  using assms revoke_first_unique[of "refresh_tokens s" _ t]
  by (auto simp: get_refresh_token_def find_None_iff revoke_refresh_token_rows unique_tokens_def)

section \<open>Facts about the service methods\<close>

lemma log_action_rows: "refresh_tokens (log_action uid act res det ip ua s) = refresh_tokens s"
  by (simp add: log_action_def)

lemma update_last_login_rows: "refresh_tokens (update_last_login now uid s) = refresh_tokens s"
  by (simp add: update_last_login_def split: option.splits)

lemma login_user_store_step: "store_step s (snd (login_user sec cfg now seed c password ip ua s))"
proof (cases "authenticate_user sec c password s")
  case None
  then show ?thesis
    by (simp add: login_user_def store_step.untouched log_action_rows)
next
  case (Some user)
  let ?cr = "create_refresh_token now (id_User user)
               (security_create_refresh_token sec now seed [(''sub'', id_User user)])
               (now + REFRESH_TOKEN_EXPIRE_DAYS cfg * 86400) ip s"
  show ?thesis
  proof (cases ?cr)
    case (Inl e)
    with Some show ?thesis
      by (simp add: login_user_def Let_def store_step.untouched)
  next
    case (Inr s1)
    then have a: "store_step s s1" by (rule store_step.created)
    have b: "store_step s1 (log_action (Some (id_User user)) ''login'' (Some ''user'')
                 (Some [(''cedula'', cedula user)]) ip ua (update_last_login now (id_User user) s1))"
      by (rule store_step.untouched) (simp add: log_action_rows update_last_login_rows)
    from Some Inr store_step.sequenced[OF a b] show ?thesis
      by (simp add: login_user_def Let_def)
  qed
qed

lemma refresh_access_token_store_step:
  "store_step s (snd (refresh_access_token sec cfg now seed rt ip s))"
proof -
  let ?s1 = "snd (revoke_refresh_token rt s)"
  have a: "store_step s ?s1" by (rule store_step.revoked)
  have b: "create_refresh_token now' uid tok exp ip ?s1 = Inr s2 \<Longrightarrow> store_step s s2"
    for now' uid tok exp s2
    using a store_step.created store_step.sequenced by blast
  show ?thesis
    by (auto simp: refresh_access_token_def Let_def a b store_step.untouched
             split: option.splits sum.splits)
qed

lemma logout_user_store_step: "store_step s (snd (logout_user sec now acc rt ip s))"
proof -
  have "store_step s (log_action uid act res det ip' ua s)" for uid act res det ip' ua
    by (rule store_step.untouched) (simp add: log_action_rows)
  moreover have "store_step s (log_action uid act res det ip' ua (snd (revoke_refresh_token r s)))"
    for uid act res det ip' ua r
    by (rule store_step.sequenced[OF store_step.revoked]) (rule store_step.untouched, simp add: log_action_rows)
  ultimately show ?thesis
    by (auto simp: logout_user_def Let_def store_step.untouched split: option.splits)
qed

lemma verify_token_state: "snd (verify_token sec now tok s) = s"
  by (simp add: verify_token_def Let_def split: option.splits)

lemma engine_step_store_step: "store_step s (engine_step sec cfg e s)"
proof -
  obtain now seed r where e: "e = (now, seed, r)" by (cases e)
  show ?thesis unfolding e
    by (cases r)
       (simp_all add: login_user_store_step refresh_access_token_store_step
          logout_user_store_step verify_token_state store_step.untouched)
qed

lemma engine_run_store_step: "store_step s (engine_run sec cfg es s)"
proof (induction es arbitrary: s)
  case Nil
  show ?case by (simp add: store_step.untouched)
next
  case (Cons e es)
  show ?case
    using store_step.sequenced[OF engine_step_store_step Cons.IH] by simp
qed


lemma create_refresh_token_rows:
  "create_refresh_token now uid tok exp ip s = Inr s' \<Longrightarrow>
     tok \<notin> set (map token (refresh_tokens s)) \<and>
     refresh_tokens s' = refresh_tokens s @
       [\<lparr>id_RefreshToken = length (refresh_tokens s), user_id = uid, token = tok,
         expires_at = exp, is_revoked = False, created_at_RefreshToken = now,
         created_by_ip = ip\<rparr>]"
  by (auto simp: create_refresh_token_def split: if_splits)

lemma row_step_refl: "row_step r r"
  by (simp add: row_step_def)

lemma row_step_trans: "row_step a b \<Longrightarrow> row_step b c \<Longrightarrow> row_step a c"
  by (auto simp: row_step_def)

lemma rows_kept_refl: "rows_kept xs xs"
  by (simp add: rows_kept_def list_all2_refl row_step_refl)

lemma rows_kept_nth:
  "rows_kept xs ys = (length xs \<le> length ys \<and> (\<forall>i < length xs. row_step (xs ! i) (ys ! i)))"
  by (auto simp: rows_kept_def list_all2_conv_all_nth)

lemma rows_kept_trans: "rows_kept xs ys \<Longrightarrow> rows_kept ys zs \<Longrightarrow> rows_kept xs zs"
  unfolding rows_kept_nth
  by (meson le_trans less_le_trans row_step_trans)

lemma rows_kept_append: "rows_kept xs (xs @ ys)"
  by (simp add: rows_kept_nth nth_append row_step_refl)

lemma list_all2_revoke_first:
  "list_all2 row_step xs (update_first P (\<lambda>r. r\<lparr>is_revoked := True\<rparr>) xs)"
  by (induction xs) (auto simp: row_step_def list_all2_refl)

lemma rows_kept_revoke_first: "rows_kept xs (update_first P (\<lambda>r. r\<lparr>is_revoked := True\<rparr>) xs)"
  by (simp add: rows_kept_def length_update_first list_all2_revoke_first)

lemma store_step_rows_kept:
  "store_step s s' \<Longrightarrow> rows_kept (refresh_tokens s) (refresh_tokens s')"
proof (induction rule: store_step.induct)
  case (untouched s' s)
  then show ?case by (simp add: rows_kept_refl)
next
  case (revoked s t)
  show ?case by (simp add: revoke_refresh_token_rows rows_kept_revoke_first)
next
  case (created now uid tok exp ip s s')
  then show ?case by (auto dest!: create_refresh_token_rows simp: rows_kept_append)
next
  case (sequenced s s' s'')
  then show ?case by (blast intro: rows_kept_trans)
qed

lemma store_step_unique_tokens: "store_step s s' \<Longrightarrow> unique_tokens s \<Longrightarrow> unique_tokens s'"
proof (induction rule: store_step.induct)
  case (untouched s' s)
  then show ?case by (simp add: unique_tokens_def)
next
  case (revoked s t)
  then show ?case by (simp add: unique_tokens_revoke)
next
  case (created now uid tok exp ip s s')
  then show ?case by (auto dest!: create_refresh_token_rows simp: unique_tokens_def)
next
  case (sequenced s s' s'')
  then show ?case by blast
qed

text \<open>The unique index holds along every run of the engine that starts with it.\<close>

lemma engine_run_unique_tokens: "unique_tokens s \<Longrightarrow> unique_tokens (engine_run sec cfg es s)"
  using engine_run_store_step store_step_unique_tokens by blast

lemma spent_revoke_first:
  assumes "list_all (\<lambda>r. token r = t \<longrightarrow> is_revoked r) xs"
  shows "list_all (\<lambda>r. token r = t \<longrightarrow> is_revoked r) (update_first P (\<lambda>r. r\<lparr>is_revoked := True\<rparr>) xs)"
  using assms by (induction xs) auto

lemma store_step_spent: "store_step s s' \<Longrightarrow> spent t s \<Longrightarrow> spent t s'"
proof (induction rule: store_step.induct)
  case (untouched s' s)
  then show ?case by (simp add: spent_def)
next
  case (revoked s t')
  then show ?case
    by (simp add: spent_def revoke_refresh_token_rows map_token_revoke_first spent_revoke_first)
next
  case (created now uid tok exp ip s s')
  from created(1) have "tok \<notin> set (map token (refresh_tokens s))"
    and "refresh_tokens s' = refresh_tokens s @
       [\<lparr>id_RefreshToken = length (refresh_tokens s), user_id = uid, token = tok,
         expires_at = exp, is_revoked = False, created_at_RefreshToken = now,
         created_by_ip = ip\<rparr>]"
    by (auto dest!: create_refresh_token_rows)
  with created(2) show ?case by (auto simp: spent_def)
next
  case (sequenced s s' s'')
  then show ?case by blast
qed

lemma spent_get_refresh_token: "spent t s \<Longrightarrow> get_refresh_token now t s = None"
  by (auto simp: spent_def get_refresh_token_def find_None_iff list_all_iff)

lemma spent_after_revoke:
  assumes "unique_tokens s" and "t \<in> set (map token (refresh_tokens s))"
  shows "spent t (snd (revoke_refresh_token t s))"
  using assms revoke_first_unique[of "refresh_tokens s" _ t]
  by (auto simp: spent_def revoke_refresh_token_rows map_token_revoke_first unique_tokens_def list_all_iff)

lemma get_refresh_token_SomeD:
  "get_refresh_token now t s = Some r \<Longrightarrow>
     r \<in> set (refresh_tokens s) \<and> token r = t \<and> \<not> is_revoked r \<and> now < expires_at r"
  by (auto simp: get_refresh_token_def dest: find_SomeD)

lemma refresh_success_spent:
  assumes "unique_tokens s"
      and "fst (fst (refresh_access_token sec cfg now seed t ip s))"
    shows "spent t (snd (refresh_access_token sec cfg now seed t ip s))"
proof -
  from assms(2) obtain r where r: "get_refresh_token now t s = Some r"
    by (auto simp: refresh_access_token_def Let_def split: if_splits option.splits)
  then have m: "t \<in> set (map token (refresh_tokens s))"
    by (auto dest!: get_refresh_token_SomeD)
  have sp: "spent t (snd (revoke_refresh_token t s))"
    using assms(1) m by (rule spent_after_revoke)
  have "create_refresh_token now' uid tok exp ip (snd (revoke_refresh_token t s)) = Inr s2
          \<Longrightarrow> spent t s2" for now' uid tok exp s2
    using sp store_step.created store_step_spent by blast
  with assms(2) show ?thesis
    by (auto simp: refresh_access_token_def Let_def split: if_splits option.splits sum.splits)
qed

lemma find_active_other_revoke_first:
  "r \<noteq> t \<Longrightarrow>
     find (\<lambda>x. token x = t \<and> \<not> is_revoked x \<and> now < expires_at x)
       (update_first (\<lambda>x. token x = r) (\<lambda>x. x\<lparr>is_revoked := True\<rparr>) xs) =
     find (\<lambda>x. token x = t \<and> \<not> is_revoked x \<and> now < expires_at x) xs"
  by (induction xs) auto

lemma nth_update_first_other:
  "i < length xs \<Longrightarrow> \<not> P (xs ! i) \<Longrightarrow> update_first P f xs ! i = xs ! i"
  by (induction xs arbitrary: i) (auto simp: nth_Cons split: nat.splits)

lemma zip_same_no_change: "filter (\<lambda>(a, b). a \<noteq> b) (zip xs xs) = []"
  by (induction xs) auto

lemma update_first_one_change:
  "length (filter (\<lambda>(a, b). a \<noteq> b) (zip xs (update_first P f xs))) \<le> 1"
  by (induction xs) (auto simp: zip_same_no_change)

lemma logout_user_users: "users (snd (logout_user sec now acc rt ip s)) = users s"
  by (simp add: logout_user_def Let_def log_action_def revoke_refresh_token_others
        split: option.splits)

lemma logout_user_rows:
  "refresh_tokens (snd (logout_user sec now acc rt ip s)) = refresh_tokens s
   \<or> (\<exists>r. rt = Some r \<and>
         refresh_tokens (snd (logout_user sec now acc rt ip s)) =
           update_first (\<lambda>x. token x = r) (\<lambda>x. x\<lparr>is_revoked := True\<rparr>) (refresh_tokens s))"
  by (simp add: logout_user_def Let_def log_action_def revoke_refresh_token_rows
        split: option.splits)

section \<open>The concrete instance, evaluated\<close>

lemmas demo_defs = demo_security_def demo_settings_def demo_db_def demo_db_revoked_def
  demo_user_def demo_row_def demo_sub_def

lemmas service_defs = login_user_def refresh_access_token_def logout_user_def verify_token_def
  Let_def falsy_def dict_get_def authenticate_user_def get_user_by_cedula_def get_user_by_id_def
  update_last_login_def touch_last_login_def create_refresh_token_def get_refresh_token_def
  revoke_refresh_token_def log_action_def

lemma demo_first_refresh:
  "refresh_access_token demo_security demo_settings 50 2 ''ref-u1-'' None demo_db =
   ((True, ''Token renovado exitosamente'',
      Some \<lparr>access_token = ''acc-u1'', refresh_token = Some ''ref-u1-ii'',
            token_type = ''bearer'', expires_in = 1800\<rparr>),
    demo_db\<lparr>refresh_tokens :=
       [demo_row 0 ''u1'' ''ref-u1-'' True, demo_row 1 ''u1'' ''ref-u1-i'' False,
        \<lparr>id_RefreshToken = 2, user_id = ''u1'', token = ''ref-u1-ii'',
           expires_at = 604850, is_revoked = False,
           created_at_RefreshToken = 50, created_by_ip = None\<rparr>]\<rparr>)"
  by (simp add: demo_defs service_defs eval_nat_numeral)

lemma demo_run:
  "refresh_tokens (engine_run demo_security demo_settings demo_requests demo_db) =
     [demo_row 0 ''u1'' ''ref-u1-'' False, demo_row 1 ''u1'' ''ref-u1-i'' True,
      \<lparr>id_RefreshToken = 2, user_id = ''u1'', token = ''ref-u1-iii'',
        expires_at = 604860, is_revoked = False,
        created_at_RefreshToken = 60, created_by_ip = None\<rparr>]"
  by (simp add: demo_requests_def demo_defs service_defs eval_nat_numeral)

section \<open>Rotation\<close>

text \<open>
  Claim C1, as amended. Let \<open>refresh_access_token\<close> succeed on the token string \<open>t\<close> in a
  store with the unique index. After any further requests to the engine, every later
  \<open>refresh_access_token\<close> on \<open>t\<close> fails and leaves the state as it is: with
  ``Refresh token no encontrado'' whenever the security module still accepts \<open>t\<close> at
  that instant, and with ``Refresh token invalido o expirado'' when it rejects \<open>t\<close>
  (the module is asked first). The token is single-use.
\<close>

theorem refresh_single_use:
  assumes "unique_tokens s"
      and "fst (fst (refresh_access_token sec cfg now seed t ip s))"
    shows "refresh_access_token sec cfg now' seed' t ip'
             (engine_run sec cfg es (snd (refresh_access_token sec cfg now seed t ip s))) =
           ((False,
             if falsy (security_verify_token sec now' t ''refresh'')
               then ''Refresh token invalido o expirado''
               else ''Refresh token no encontrado'',
             None),
            engine_run sec cfg es (snd (refresh_access_token sec cfg now seed t ip s)))"
proof -
  let ?s1 = "snd (refresh_access_token sec cfg now seed t ip s)"
  have "spent t ?s1" using assms by (rule refresh_success_spent)
  then have "spent t (engine_run sec cfg es ?s1)"
    using engine_run_store_step store_step_spent by blast
  then have "get_refresh_token now' t (engine_run sec cfg es ?s1) = None"
    by (rule spent_get_refresh_token)
  then show ?thesis
    by (simp add: refresh_access_token_def Let_def)
qed

text \<open>
  The amended claim C1 on the concrete store: the first token is rotated at instant 50; after
  a login and a logout, presenting it again at instant 80, when the security module still
  accepts it, fails with ``Refresh token no encontrado''.
\<close>

theorem refresh_single_use_witness:
  "unique_tokens demo_db
   \<and> fst (fst (refresh_access_token demo_security demo_settings 50 2 ''ref-u1-'' None demo_db))
   \<and> fst (refresh_access_token demo_security demo_settings 80 5 ''ref-u1-'' None
        (engine_run demo_security demo_settings demo_requests
           (snd (refresh_access_token demo_security demo_settings 50 2 ''ref-u1-'' None demo_db))))
      = (False, ''Refresh token no encontrado'', None)"
proof -
  have u: "unique_tokens demo_db"
    by (simp add: unique_tokens_def demo_db_def demo_row_def)
  have ok: "fst (fst (refresh_access_token demo_security demo_settings 50 2 ''ref-u1-'' None demo_db))"
    by (simp add: demo_first_refresh)
  have acc: "\<not> falsy (security_verify_token demo_security 80 ''ref-u1-'' ''refresh'')"
    by (simp add: demo_security_def falsy_def)
  show ?thesis
    using u ok acc refresh_single_use [OF u ok, of 80 5 None demo_requests] by simp
qed

text \<open>
  Claim C1 as stated fails: the same token, rotated at instant 50 and presented again at
  instant 150, is rejected by the security module first, and the failure is not the one of
  the store lookup.
\<close>

theorem refresh_single_use_counterexample:
  "fst (fst (refresh_access_token demo_security demo_settings 50 2 ''ref-u1-'' None demo_db))
   \<and> fst (snd (fst (refresh_access_token demo_security demo_settings 150 5 ''ref-u1-'' None
        (snd (refresh_access_token demo_security demo_settings 50 2 ''ref-u1-'' None demo_db)))))
      \<noteq> ''Refresh token no encontrado''"
  by (simp add: demo_first_refresh) (simp add: refresh_access_token_def demo_security_def falsy_def)

section \<open>Failures of a refresh\<close>

text \<open>
  Claim C2. \<open>refresh_access_token\<close> asks the security module first: a rejected token
  (the module returns nothing, or an empty claim set, which \<open>not token_data\<close> cannot tell
  apart) gives ``Refresh token invalido o expirado''. Otherwise, when no row of the store
  carries the token string unrevoked with an expiry strictly after \<open>now\<close>, the result is
  ``Refresh token no encontrado'', although the module accepted the token. Otherwise, when
  no user record has the subject of the token, the result is ``Usuario no encontrado''. In
  all three cases the state returned is the state received.
\<close>

theorem refresh_failure_order:
  "(falsy (security_verify_token sec now rt ''refresh'') \<longrightarrow>
      refresh_access_token sec cfg now seed rt ip s =
        ((False, ''Refresh token invalido o expirado'', None), s))
   \<and> (\<not> falsy (security_verify_token sec now rt ''refresh'')
        \<and> \<not> (\<exists>r \<in> set (refresh_tokens s). token r = rt \<and> \<not> is_revoked r \<and> now < expires_at r) \<longrightarrow>
      refresh_access_token sec cfg now seed rt ip s =
        ((False, ''Refresh token no encontrado'', None), s))
   \<and> (\<not> falsy (security_verify_token sec now rt ''refresh'')
        \<and> (\<exists>r \<in> set (refresh_tokens s). token r = rt \<and> \<not> is_revoked r \<and> now < expires_at r)
        \<and> \<not> (\<exists>u \<in> set (users s).
                Some (id_User u) = dict_get (security_verify_token sec now rt ''refresh'') ''sub'') \<longrightarrow>
      refresh_access_token sec cfg now seed rt ip s =
        ((False, ''Usuario no encontrado'', None), s))"
proof (intro conjI impI)
  assume "falsy (security_verify_token sec now rt ''refresh'')"
  then show "refresh_access_token sec cfg now seed rt ip s =
        ((False, ''Refresh token invalido o expirado'', None), s)"
    by (simp add: refresh_access_token_def)
next
  assume a: "\<not> falsy (security_verify_token sec now rt ''refresh'')
        \<and> \<not> (\<exists>r \<in> set (refresh_tokens s). token r = rt \<and> \<not> is_revoked r \<and> now < expires_at r)"
  then have "get_refresh_token now rt s = None"
    by (auto simp: get_refresh_token_def find_None_iff)
  with a show "refresh_access_token sec cfg now seed rt ip s =
        ((False, ''Refresh token no encontrado'', None), s)"
    by (simp add: refresh_access_token_def)
next
  assume a: "\<not> falsy (security_verify_token sec now rt ''refresh'')
        \<and> (\<exists>r \<in> set (refresh_tokens s). token r = rt \<and> \<not> is_revoked r \<and> now < expires_at r)
        \<and> \<not> (\<exists>u \<in> set (users s).
                Some (id_User u) = dict_get (security_verify_token sec now rt ''refresh'') ''sub'')"
  then have "get_refresh_token now rt s \<noteq> None"
    by (auto simp: get_refresh_token_def find_None_iff)
  moreover from a have "get_user_by_id (dict_get (security_verify_token sec now rt ''refresh'') ''sub'') s = None"
    by (auto simp: get_user_by_id_def find_None_iff split: option.splits)
  ultimately show "refresh_access_token sec cfg now seed rt ip s =
        ((False, ''Usuario no encontrado'', None), s)"
    using a by (auto simp: refresh_access_token_def)
qed

text \<open>
  Claim C2 on the concrete instance: a token past the module's expiry, a revoked token
  that the module accepts, and a stored token whose subject has no user record.
\<close>

theorem refresh_failure_order_witness:
  "refresh_access_token demo_security demo_settings 150 5 ''ref-u1-'' None demo_db =
     ((False, ''Refresh token invalido o expirado'', None), demo_db)
   \<and> refresh_access_token demo_security demo_settings 50 5 ''ref-u1-i'' None demo_db_revoked =
     ((False, ''Refresh token no encontrado'', None), demo_db_revoked)
   \<and> refresh_access_token demo_security demo_settings 50 5 ''ref-u9-'' None demo_db_orphan =
     ((False, ''Usuario no encontrado'', None), demo_db_orphan)"
proof -
  have a: "falsy (security_verify_token demo_security 150 ''ref-u1-'' ''refresh'')"
    by (simp add: demo_security_def falsy_def)
  have b: "\<not> falsy (security_verify_token demo_security 50 ''ref-u1-i'' ''refresh'')
        \<and> \<not> (\<exists>r \<in> set (refresh_tokens demo_db_revoked).
               token r = ''ref-u1-i'' \<and> \<not> is_revoked r \<and> 50 < expires_at r)"
    by (simp add: demo_defs falsy_def)
  have c: "\<not> falsy (security_verify_token demo_security 50 ''ref-u9-'' ''refresh'')
        \<and> (\<exists>r \<in> set (refresh_tokens demo_db_orphan).
               token r = ''ref-u9-'' \<and> \<not> is_revoked r \<and> 50 < expires_at r)
        \<and> \<not> (\<exists>u \<in> set (users demo_db_orphan).
                Some (id_User u) =
                  dict_get (security_verify_token demo_security 50 ''ref-u9-'' ''refresh'') ''sub'')"
    by (simp add: demo_defs demo_db_orphan_def falsy_def dict_get_def)
  show ?thesis
    using a b c
      refresh_failure_order [of demo_security 150 "''ref-u1-''" demo_settings 5 None demo_db]
      refresh_failure_order [of demo_security 50 "''ref-u1-i''" demo_settings 5 None demo_db_revoked]
      refresh_failure_order [of demo_security 50 "''ref-u9-''" demo_settings 5 None demo_db_orphan]
    by blast
qed

section \<open>What a failure reveals\<close>

text \<open>
  Claim C4. Take two calls of \<open>login_user\<close>, in any two states and at any two
  instants: one with an identifier that no user has, one with the identifier of a user and
  a secret that \<open>verify_password\<close> refuses. Both return the same outcome, failure with
  the message ``Cedula o contrasena incorrecta'' and no payload, and each emits exactly one
  audit entry, with the action \<open>login_failed\<close> and no user id.
\<close>

theorem login_failure_indistinguishable:
  assumes "get_user_by_cedula c1 s1 = None"
      and "get_user_by_cedula c2 s2 = Some u"
      and "\<not> security_verify_password sec p2 (password_hash u)"
    shows "fst (login_user sec cfg now1 seed1 c1 p1 ip1 ua1 s1) =
             (False, ''Cedula o contrasena incorrecta'', None)
         \<and> fst (login_user sec cfg now2 seed2 c2 p2 ip2 ua2 s2) =
             (False, ''Cedula o contrasena incorrecta'', None)
         \<and> map (\<lambda>a. (action a, user_id_audit a))
              (drop (length (audit_emitted s1))
                 (audit_emitted (snd (login_user sec cfg now1 seed1 c1 p1 ip1 ua1 s1)))) =
             [(''login_failed'', None)]
         \<and> map (\<lambda>a. (action a, user_id_audit a))
              (drop (length (audit_emitted s2))
                 (audit_emitted (snd (login_user sec cfg now2 seed2 c2 p2 ip2 ua2 s2)))) =
             [(''login_failed'', None)]"
proof -
  have "authenticate_user sec c1 p1 s1 = None"
    using assms(1) by (simp add: authenticate_user_def)
  moreover have "authenticate_user sec c2 p2 s2 = None"
    using assms(2,3) by (simp add: authenticate_user_def)
  ultimately show ?thesis
    by (simp add: login_user_def log_action_def)
qed

text \<open>
  Claim C4 on the concrete store: an unknown identifier, and the identifier of \<open>u1\<close>
  with the secret of \<open>u2\<close>.
\<close>

theorem login_failure_indistinguishable_witness:
  "fst (login_user demo_security demo_settings 50 2 ''00000000'' ''secreto-1'' None None demo_db) =
     fst (login_user demo_security demo_settings 60 3 ''12345678'' ''secreto-2'' None None demo_db)
   \<and> map (\<lambda>a. (action a, user_id_audit a))
        (audit_emitted
           (snd (login_user demo_security demo_settings 50 2 ''00000000'' ''secreto-1'' None None
                   demo_db))) = [(''login_failed'', None)]
   \<and> map (\<lambda>a. (action a, user_id_audit a))
        (audit_emitted
           (snd (login_user demo_security demo_settings 60 3 ''12345678'' ''secreto-2'' None None
                   demo_db))) = [(''login_failed'', None)]"
proof -
  have a: "get_user_by_cedula ''00000000'' demo_db = None"
    by (simp add: get_user_by_cedula_def demo_db_def demo_user_def)
  have b: "get_user_by_cedula ''12345678'' demo_db = Some (demo_user ''u1'' ''12345678'' ''#secreto-1'')"
    by (simp add: get_user_by_cedula_def demo_db_def demo_user_def)
  have c: "\<not> security_verify_password demo_security ''secreto-2''
               (password_hash (demo_user ''u1'' ''12345678'' ''#secreto-1''))"
    by (simp add: demo_security_def demo_user_def)
  have e: "audit_emitted demo_db = []"
    by (simp add: demo_db_def)
  show ?thesis
    using login_failure_indistinguishable [OF a b c, of demo_settings 50 2 "''secreto-1''" None None
        60 3 None None] e
    by simp
qed

text \<open>
  Claim C5, as amended. Two failing calls of \<open>refresh_access_token\<close> return the same
  outcome when the security module rejects both tokens (expired, malformed or never issued:
  ``Refresh token invalido o expirado''), and they return the same outcome when the module
  accepts both tokens and neither has a usable row, whether the row is absent, revoked or
  past its stored expiry (``Refresh token no encontrado''). Two calls of
  \<open>verify_token\<close> on tokens that the module rejects return the same outcome
  (``Token invalido o expirado''), whatever the stores hold.
\<close>

theorem failure_causes:
  "(falsy (security_verify_token sec now rt ''refresh'')
      \<and> falsy (security_verify_token sec now' rt' ''refresh'') \<longrightarrow>
      fst (refresh_access_token sec cfg now seed rt ip s) =
        (False, ''Refresh token invalido o expirado'', None)
      \<and> fst (refresh_access_token sec cfg now' seed' rt' ip' s') =
          fst (refresh_access_token sec cfg now seed rt ip s))
   \<and> (\<not> falsy (security_verify_token sec now rt ''refresh'')
      \<and> \<not> falsy (security_verify_token sec now' rt' ''refresh'')
      \<and> list_all (\<lambda>r. token r \<noteq> rt \<or> is_revoked r \<or> expires_at r \<le> now) (refresh_tokens s)
      \<and> list_all (\<lambda>r. token r \<noteq> rt' \<or> is_revoked r \<or> expires_at r \<le> now') (refresh_tokens s') \<longrightarrow>
      fst (refresh_access_token sec cfg now seed rt ip s) =
        (False, ''Refresh token no encontrado'', None)
      \<and> fst (refresh_access_token sec cfg now' seed' rt' ip' s') =
          fst (refresh_access_token sec cfg now seed rt ip s))
   \<and> (falsy (security_verify_token sec now tok ''access'')
      \<and> falsy (security_verify_token sec now' tok' ''access'') \<longrightarrow>
      fst (verify_token sec now tok s) = (False, ''Token invalido o expirado'', None)
      \<and> fst (verify_token sec now' tok' s') = fst (verify_token sec now tok s))"
proof -
  have none: "list_all (\<lambda>r. token r \<noteq> t \<or> is_revoked r \<or> expires_at r \<le> n) (refresh_tokens d)
        \<Longrightarrow> get_refresh_token n t d = None" for t n d
    by (auto simp: get_refresh_token_def find_None_iff list_all_iff)
  show ?thesis
    by (auto simp: refresh_access_token_def verify_token_def Let_def none)
qed

text \<open>
  The amended claim C5 on the concrete instance: an expired token against a token never
  issued, a revoked row against an absent row, and the same for \<open>verify_token\<close>.
\<close>

theorem failure_causes_witness:
  "fst (refresh_access_token demo_security demo_settings 150 5 ''ref-u1-'' None demo_db) =
     fst (refresh_access_token demo_security demo_settings 50 5 ''never-issued'' None demo_db)
   \<and> fst (refresh_access_token demo_security demo_settings 50 5 ''ref-u1-i'' None demo_db_revoked) =
     fst (refresh_access_token demo_security demo_settings 50 5 ''ref-u7-'' None demo_db)
   \<and> fst (verify_token demo_security 150 ''acc-u1'' demo_db) =
     fst (verify_token demo_security 50 ''never-issued'' demo_db)"
proof -
  have a: "falsy (security_verify_token demo_security 50 ''never-issued'' ''refresh'')
         \<and> falsy (security_verify_token demo_security 150 ''ref-u1-'' ''refresh'')"
    by (simp add: demo_security_def falsy_def)
  have b: "\<not> falsy (security_verify_token demo_security 50 ''ref-u7-'' ''refresh'')
         \<and> \<not> falsy (security_verify_token demo_security 50 ''ref-u1-i'' ''refresh'')
         \<and> list_all (\<lambda>r. token r \<noteq> ''ref-u7-'' \<or> is_revoked r \<or> expires_at r \<le> 50)
             (refresh_tokens demo_db)
         \<and> list_all (\<lambda>r. token r \<noteq> ''ref-u1-i'' \<or> is_revoked r \<or> expires_at r \<le> 50)
             (refresh_tokens demo_db_revoked)"
    by (simp add: demo_defs falsy_def)
  have c: "falsy (security_verify_token demo_security 50 ''never-issued'' ''access'')
         \<and> falsy (security_verify_token demo_security 150 ''acc-u1'' ''access'')"
    by (simp add: demo_security_def falsy_def)
  show ?thesis
    using a b c
      failure_causes [of demo_security 50 "''never-issued''" 150 "''ref-u1-''" demo_settings 5 None
        demo_db 5 None demo_db "''never-issued''" "''acc-u1''"]
      failure_causes [of demo_security 50 "''ref-u7-''" 50 "''ref-u1-i''" demo_settings 5 None
        demo_db 5 None demo_db_revoked "''never-issued''" "''acc-u1''"]
    by simp
qed

text \<open>
  Claim C5 as stated fails: in one store, a token past the module's expiry and a token
  whose row is revoked are answered with two different messages.
\<close>

theorem failure_causes_counterexample:
  "fst (refresh_access_token demo_security demo_settings 150 5 ''ref-u1-'' None demo_db_revoked) =
     (False, ''Refresh token invalido o expirado'', None)
   \<and> fst (refresh_access_token demo_security demo_settings 50 5 ''ref-u1-i'' None demo_db_revoked) =
     (False, ''Refresh token no encontrado'', None)
   \<and> fst (refresh_access_token demo_security demo_settings 150 5 ''ref-u1-'' None demo_db_revoked) \<noteq>
     fst (refresh_access_token demo_security demo_settings 50 5 ''ref-u1-i'' None demo_db_revoked)"
  by (simp add: demo_defs service_defs)

section \<open>The table of refresh tokens over a run\<close>

text \<open>
  Claim C6. Over any sequence of requests to the engine (login, refresh, logout, verify),
  the table of refresh tokens never loses a row: every row stays at its position, either
  unchanged or with \<open>is_revoked\<close> set, so a revoked row stays revoked.
\<close>

theorem rows_never_deleted_revocation_monotone:
  "length (refresh_tokens s) \<le> length (refresh_tokens (engine_run sec cfg es s))
   \<and> (\<forall>i < length (refresh_tokens s).
        (refresh_tokens (engine_run sec cfg es s) ! i = refresh_tokens s ! i
         \<or> refresh_tokens (engine_run sec cfg es s) ! i = (refresh_tokens s ! i)\<lparr>is_revoked := True\<rparr>)
        \<and> (is_revoked (refresh_tokens s ! i) \<longrightarrow>
             is_revoked (refresh_tokens (engine_run sec cfg es s) ! i)))"
proof -
  have "rows_kept (refresh_tokens s) (refresh_tokens (engine_run sec cfg es s))"
    using engine_run_store_step by (rule store_step_rows_kept)
  then show ?thesis
    by (auto simp: rows_kept_nth row_step_def)
qed

text \<open>
  Claim C6 on the concrete run: the table grows from two rows to three, the first row is
  unchanged and the second one is revoked.
\<close>

theorem rows_never_deleted_revocation_monotone_witness:
  "length (refresh_tokens demo_db) = 2
   \<and> length (refresh_tokens (engine_run demo_security demo_settings demo_requests demo_db)) = 3
   \<and> refresh_tokens (engine_run demo_security demo_settings demo_requests demo_db) ! 0 =
       refresh_tokens demo_db ! 0
   \<and> refresh_tokens (engine_run demo_security demo_settings demo_requests demo_db) ! 1 =
       (refresh_tokens demo_db ! 1)\<lparr>is_revoked := True\<rparr>"
  using rows_never_deleted_revocation_monotone [of demo_db demo_security demo_settings demo_requests]
  by (simp add: demo_run) (simp add: demo_db_def demo_row_def)

section \<open>Logout\<close>

text \<open>
  Claim C7. \<open>logout_user\<close> leaves the user table alone and keeps the number of rows;
  every row whose token string is not the one supplied is unchanged; at most one row
  differs afterwards; and for every other token string \<open>get_refresh_token\<close> answers as
  before, at any instant, so the other sessions stay usable.
\<close>

theorem logout_frame:
  "users (snd (logout_user sec now acc rt ip s)) = users s
   \<and> length (refresh_tokens (snd (logout_user sec now acc rt ip s))) = length (refresh_tokens s)
   \<and> (\<forall>i < length (refresh_tokens s).
        rt \<noteq> Some (token (refresh_tokens s ! i)) \<longrightarrow>
        refresh_tokens (snd (logout_user sec now acc rt ip s)) ! i = refresh_tokens s ! i)
   \<and> length (filter (\<lambda>(a, b). a \<noteq> b)
        (zip (refresh_tokens s) (refresh_tokens (snd (logout_user sec now acc rt ip s))))) \<le> 1
   \<and> (\<forall>t now'. rt \<noteq> Some t \<longrightarrow>
        get_refresh_token now' t (snd (logout_user sec now acc rt ip s)) = get_refresh_token now' t s)"
proof -
  let ?rows = "refresh_tokens s"
  let ?rows' = "refresh_tokens (snd (logout_user sec now acc rt ip s))"
  consider (same) "?rows' = ?rows"
    | (revoke) r where "rt = Some r"
        "?rows' = update_first (\<lambda>x. token x = r) (\<lambda>x. x\<lparr>is_revoked := True\<rparr>) ?rows"
    using logout_user_rows [of sec now acc rt ip s] by blast
  then have "length ?rows' = length ?rows
     \<and> (\<forall>i < length ?rows. rt \<noteq> Some (token (?rows ! i)) \<longrightarrow> ?rows' ! i = ?rows ! i)
     \<and> length (filter (\<lambda>(a, b). a \<noteq> b) (zip ?rows ?rows')) \<le> 1
     \<and> (\<forall>t now'. rt \<noteq> Some t \<longrightarrow>
          find (\<lambda>x. token x = t \<and> is_revoked x = False \<and> expires_at x > now') ?rows' =
          find (\<lambda>x. token x = t \<and> is_revoked x = False \<and> expires_at x > now') ?rows)"
  proof cases
    case same
    then show ?thesis by (simp add: zip_same_no_change)
  next
    case revoke
    have "\<forall>i < length ?rows. rt \<noteq> Some (token (?rows ! i)) \<longrightarrow> ?rows' ! i = ?rows ! i"
      using revoke by (auto simp: nth_update_first_other)
    moreover have "\<forall>t now'. rt \<noteq> Some t \<longrightarrow>
          find (\<lambda>x. token x = t \<and> is_revoked x = False \<and> expires_at x > now') ?rows' =
          find (\<lambda>x. token x = t \<and> is_revoked x = False \<and> expires_at x > now') ?rows"
      using revoke by (auto simp: find_active_other_revoke_first)
    ultimately show ?thesis
      using revoke(2) update_first_one_change [of ?rows "\<lambda>x. token x = r"]
      by (simp add: length_update_first)
  qed
  then show ?thesis
    by (simp add: logout_user_users get_refresh_token_def)
qed

text \<open>
  Claim C7 on the concrete store: \<open>u1\<close> logs out with the second token; the row of
  the first token is unchanged and still usable.
\<close>

theorem logout_frame_witness:
  "refresh_tokens (snd (logout_user demo_security 50 ''acc-u1'' (Some ''ref-u1-i'') None demo_db)) ! 0 =
     refresh_tokens demo_db ! 0
   \<and> get_refresh_token 50 ''ref-u1-''
       (snd (logout_user demo_security 50 ''acc-u1'' (Some ''ref-u1-i'') None demo_db)) =
     Some (demo_row 0 ''u1'' ''ref-u1-'' False)"
proof -
  have a: "0 < length (refresh_tokens demo_db)"
    and b: "Some ''ref-u1-i'' \<noteq> Some (token (refresh_tokens demo_db ! 0))"
    and c: "Some ''ref-u1-i'' \<noteq> Some ''ref-u1-''"
    by (simp_all add: demo_db_def demo_row_def)
  have d: "get_refresh_token 50 ''ref-u1-'' demo_db = Some (demo_row 0 ''u1'' ''ref-u1-'' False)"
    by (simp add: get_refresh_token_def demo_db_def demo_row_def)
  show ?thesis
    using a b c d logout_frame [of demo_security 50 "''acc-u1''" "Some ''ref-u1-i''" None demo_db]
    by simp
qed

text \<open>
  Claim C9. When the access token validates and a non-empty refresh token string is
  supplied that has a row in a store with the unique index, \<open>logout_user\<close> succeeds and
  revokes that row, whoever owns it: the owner of the row is never compared with the
  subject of the access token. (An empty string is treated as no refresh token.)
\<close>

theorem logout_revokes_any_owner:
  assumes "unique_tokens s"
      and "\<not> falsy (security_verify_token sec now acc ''access'')"
      and "r \<noteq> []"
      and "row \<in> set (refresh_tokens s)" and "token row = r"
    shows "fst (logout_user sec now acc (Some r) ip s) = (True, ''Logout exitoso'')
         \<and> row\<lparr>is_revoked := True\<rparr> \<in> set (refresh_tokens (snd (logout_user sec now acc (Some r) ip s)))
         \<and> list_all (\<lambda>x. token x = r \<longrightarrow> is_revoked x)
             (refresh_tokens (snd (logout_user sec now acc (Some r) ip s)))
         \<and> get_refresh_token now' r (snd (logout_user sec now acc (Some r) ip s)) = None"
proof -
  let ?s' = "snd (logout_user sec now acc (Some r) ip s)"
  have rows: "refresh_tokens ?s' = refresh_tokens (snd (revoke_refresh_token r s))"
    using assms(2,3) by (simp add: logout_user_def Let_def log_action_def)
  have m: "r \<in> set (map token (refresh_tokens s))"
    using assms(4,5) by auto
  have sp: "spent r (snd (revoke_refresh_token r s))"
    using assms(1) m by (rule spent_after_revoke)
  have "row\<lparr>is_revoked := True\<rparr> \<in> set (update_first (\<lambda>x. token x = r) (\<lambda>x. x\<lparr>is_revoked := True\<rparr>) xs)"
    if "row \<in> set xs" "distinct (map token xs)" for xs
    using that assms(5) by (induction xs) (auto simp: rev_image_eqI)
  then have "row\<lparr>is_revoked := True\<rparr> \<in> set (refresh_tokens ?s')"
    using assms(1,4) by (simp add: rows revoke_refresh_token_rows unique_tokens_def)
  moreover have "list_all (\<lambda>x. token x = r \<longrightarrow> is_revoked x) (refresh_tokens ?s')"
    using sp by (simp add: spent_def rows)
  moreover have "get_refresh_token now' r ?s' = None"
    using spent_get_refresh_token [OF sp, of now'] by (simp add: get_refresh_token_def rows)
  moreover have "fst (logout_user sec now acc (Some r) ip s) = (True, ''Logout exitoso'')"
    using assms(2,3) by (simp add: logout_user_def Let_def)
  ultimately show ?thesis by simp
qed

text \<open>
  Claim C9 on the concrete store: with the access token of \<open>u2\<close>, a logout revokes a
  refresh token that belongs to \<open>u1\<close>.
\<close>

theorem logout_revokes_any_owner_witness:
  "user_id (demo_row 0 ''u1'' ''ref-u1-'' False) = ''u1''
   \<and> dict_get (security_verify_token demo_security 50 ''acc-u2'' ''access'') ''sub'' = Some ''u2''
   \<and> fst (logout_user demo_security 50 ''acc-u2'' (Some ''ref-u1-'') None demo_db) =
       (True, ''Logout exitoso'')
   \<and> demo_row 0 ''u1'' ''ref-u1-'' True \<in>
       set (refresh_tokens (snd (logout_user demo_security 50 ''acc-u2'' (Some ''ref-u1-'') None demo_db)))
   \<and> get_refresh_token 50 ''ref-u1-''
       (snd (logout_user demo_security 50 ''acc-u2'' (Some ''ref-u1-'') None demo_db)) = None"
proof -
  have u: "unique_tokens demo_db"
    by (simp add: unique_tokens_def demo_db_def demo_row_def)
  have a: "\<not> falsy (security_verify_token demo_security 50 ''acc-u2'' ''access'')"
    by (simp add: demo_security_def falsy_def)
  have n: "''ref-u1-'' \<noteq> []" by simp
  have m: "demo_row 0 ''u1'' ''ref-u1-'' False \<in> set (refresh_tokens demo_db)"
    by (simp add: demo_db_def)
  have t: "token (demo_row 0 ''u1'' ''ref-u1-'' False) = ''ref-u1-''"
    by (simp add: demo_row_def)
  have o: "user_id (demo_row 0 ''u1'' ''ref-u1-'' False) = ''u1''
         \<and> dict_get (security_verify_token demo_security 50 ''acc-u2'' ''access'') ''sub'' = Some ''u2''"
    by (simp add: demo_row_def demo_security_def dict_get_def)
  have e: "(demo_row 0 ''u1'' ''ref-u1-'' False)\<lparr>is_revoked := True\<rparr> = demo_row 0 ''u1'' ''ref-u1-'' True"
    by (simp add: demo_row_def)
  show ?thesis
    using o e logout_revokes_any_owner [OF u a n m t, of None 50] by simp
qed

section \<open>Revocation\<close>

text \<open>
  Claim C3, as amended. For a token string that has a row in a store with the unique index,
  \<open>revoke_refresh_token\<close> returns \<open>True\<close> on the first call and \<open>True\<close> again on the
  second call (it reports that a row with this string exists, revoked or not), and after
  either call \<open>get_refresh_token\<close> finds no usable row for the string, at any instant.
\<close>

theorem revoke_refresh_token_twice:
  assumes "unique_tokens s" and "t \<in> set (map token (refresh_tokens s))"
  shows "fst (revoke_refresh_token t s) = True
       \<and> fst (revoke_refresh_token t (snd (revoke_refresh_token t s))) = True
       \<and> get_refresh_token now t (snd (revoke_refresh_token t s)) = None
       \<and> get_refresh_token now t
           (snd (revoke_refresh_token t (snd (revoke_refresh_token t s)))) = None"
proof -
  let ?s1 = "snd (revoke_refresh_token t s)"
  have u1: "unique_tokens ?s1" using assms(1) by (rule unique_tokens_revoke)
  have m1: "t \<in> set (map token (refresh_tokens ?s1))"
    using assms(2) by (simp add: revoke_refresh_token_rows map_token_revoke_first)
  show ?thesis
    using assms u1 m1
    by (simp add: revoke_refresh_token_fst get_refresh_token_after_revoke)
qed

text \<open>The amended claim C3 on the first token of the concrete store, at instant 50.\<close>

theorem revoke_refresh_token_twice_witness:
  "unique_tokens demo_db \<and> ''ref-u1-'' \<in> set (map token (refresh_tokens demo_db))
   \<and> fst (revoke_refresh_token ''ref-u1-'' demo_db) = True
   \<and> fst (revoke_refresh_token ''ref-u1-'' (snd (revoke_refresh_token ''ref-u1-'' demo_db))) = True
   \<and> get_refresh_token 50 ''ref-u1-'' (snd (revoke_refresh_token ''ref-u1-'' demo_db)) = None
   \<and> get_refresh_token 50 ''ref-u1-''
       (snd (revoke_refresh_token ''ref-u1-'' (snd (revoke_refresh_token ''ref-u1-'' demo_db))))
       = None"
proof -
  have u: "unique_tokens demo_db"
    by (simp add: unique_tokens_def demo_db_def demo_row_def)
  have m: "''ref-u1-'' \<in> set (map token (refresh_tokens demo_db))"
    by (simp add: demo_db_def demo_row_def)
  show ?thesis
    using u m revoke_refresh_token_twice [OF u m, of 50] by simp
qed

text \<open>
  Claim C3 as stated fails: the token \<open>ref-u1-\<close> has a row in the concrete store, and the
  second revocation of it does not return \<open>False\<close>.
\<close>

theorem revoke_refresh_token_twice_counterexample:
  "''ref-u1-'' \<in> set (map token (refresh_tokens demo_db))
   \<and> fst (revoke_refresh_token ''ref-u1-''
            (snd (revoke_refresh_token ''ref-u1-'' demo_db))) \<noteq> False"
  by (simp add: revoke_refresh_token_def demo_db_def demo_row_def)

section \<open>The last-login timestamp\<close>

text \<open>
  Claim C8 does not hold of the code. The user \<open>u1\<close> was last modified at instant 5
  and logs in successfully at instant 50: \<open>update_last_login\<close> copies the previous
  \<open>updated_at\<close> into \<open>last_login\<close>, so the last login reads 5, not 50.
\<close>

theorem login_last_login_lags:
  "fst (fst (login_user demo_security demo_settings 50 2 ''12345678'' ''secreto-1'' None None demo_db))
   \<and> map updated_at (users demo_db) = [5, 5]
   \<and> map last_login
       (users (snd (login_user demo_security demo_settings 50 2 ''12345678'' ''secreto-1'' None None
                      demo_db))) = [Some 5, None]"
  by (simp add: demo_defs service_defs eval_nat_numeral)

end
